theory Spec2Isabelle
  imports Complex_Main
begin

section \<open>The in-memory subscription service (src/services/subscriptionService.ts)\<close>

subsection \<open>Data model\<close>

text \<open>
  The interface \<^verbatim>\<open>Subscription\<close> and its extension \<^verbatim>\<open>ActivatedSubscription\<close>.
  The field \<^verbatim>\<open>id\<close> is called \<open>sub_id\<close> here (\<open>id\<close> is the identity function of HOL).
  A JavaScript \<^verbatim>\<open>number\<close> is carried as a real: the service only stores and copies
  prices, it does no arithmetic on them. A \<^verbatim>\<open>Date\<close> is its timestamp, the integer
  number of milliseconds since the epoch. Optional fields are options.
\<close>

datatype Status = active | expired | cancelled

record Subscription =
  sub_id :: string
  name :: string
  price :: real
  solPrice :: real
  period :: string
  estimated :: "bool option"
  region :: "string option"
  category :: string

record ActivatedSubscription = Subscription +
  activatedAt :: int
  expiresAt :: int
  status :: Status
  cashbackEarned :: "real option"

text \<open>
  The private field \<^verbatim>\<open>activatedSubscriptions\<close>, the whole state of the service: an array
  that \<^verbatim>\<open>push\<close> extends at its end. Every element is a fresh object literal, so no two
  positions alias and the array is a list of records.
\<close>

type_synonym Store = "ActivatedSubscription list"

subsection \<open>Strings\<close>

text \<open>
  A string is a list of code units below 256. On that range \<^verbatim>\<open>toLowerCase\<close> moves
  \<^verbatim>\<open>A-Z\<close> and the letters U+00C0 to U+00DE (the multiplication sign U+00D7 apart) up
  by 32 and leaves every other code unit alone, and the class \<^verbatim>\<open>\s\<close> holds tab, line
  feed, vertical tab, form feed, carriage return, space and the no-break space.
\<close>

definition lowerChar :: "char \<Rightarrow> char" where
  "lowerChar c =
     (let n = (of_char c :: nat)
      in if (65 \<le> n \<and> n \<le> 90) \<or> (192 \<le> n \<and> n \<le> 222 \<and> n \<noteq> 215)
         then char_of (n + 32) else c)"

definition toLowerCase :: "string \<Rightarrow> string" where
  "toLowerCase s = map lowerChar s"

definition isSpace :: "char \<Rightarrow> bool" where
  "isSpace c = ((of_char c :: nat) \<in> {9, 10, 11, 12, 13, 32, 160})"

text \<open>
  \<^verbatim>\<open>s.replace(/\s+/g, '-')\<close>: every maximal run of white space becomes one dash. The
  flag says that the previous code unit was white space, its dash already written.
\<close>

fun replaceSpaces :: "bool \<Rightarrow> string \<Rightarrow> string" where
  "replaceSpaces inRun [] = []"
| "replaceSpaces inRun (c # cs) =
     (if isSpace c
      then (if inRun then replaceSpaces True cs else CHR ''-'' # replaceSpaces True cs)
      else c # replaceSpaces False cs)"

text \<open>The decimal numeral of an integer, as a template literal prints \<^verbatim>\<open>Date.now()\<close>.\<close>

fun showNat :: "nat \<Rightarrow> string" where
  "showNat n =
     (if n < 10 then [char_of (48 + n)]
      else showNat (n div 10) @ [char_of (48 + n mod 10)])"

definition showInt :: "int \<Rightarrow> string" where
  "showInt i = (if i < 0 then CHR ''-'' # showNat (nat (- i)) else showNat (nat i))"

subsection \<open>The cashback service and the clock\<close>

text \<open>
  \<^verbatim>\<open>cashbackService\<close> is imported from a module that is not part of the sources at hand,
  so its two methods are parameters. Either call may throw; what is thrown is an
  \<^verbatim>\<open>Error\<close> with its message, or something else.
\<close>

datatype thrown = Error string | NonError

record CashbackService =
  calculateCashback :: "real \<Rightarrow> thrown + real"
  earnCashback :: "string \<Rightarrow> real \<Rightarrow> thrown option"

text \<open>
  One activation reads the wall clock three times, in the order in which the object
  literal is evaluated: \<^verbatim>\<open>Date.now()\<close> for the id, \<^verbatim>\<open>new Date()\<close> for
  \<^verbatim>\<open>activatedAt\<close>, and \<^verbatim>\<open>Date.now()\<close> again for \<^verbatim>\<open>expiresAt\<close>. The three readings
  are inputs.
\<close>

record Clock =
  idNow :: int
  activatedNow :: int
  expiresNow :: int

subsection \<open>Operations\<close>

definition getPeriodInMs :: "string \<Rightarrow> int" where
  "getPeriodInMs p =
     (let k = toLowerCase p
      in if k = ''year'' then 365 * 24 * 60 * 60 * 1000
         else if k = ''month'' then 30 * 24 * 60 * 60 * 1000
         else if k = ''week'' then 7 * 24 * 60 * 60 * 1000
         else if k = ''day'' then 24 * 60 * 60 * 1000
         else 365 * 24 * 60 * 60 * 1000)"

record ActivationResult =
  success :: bool
  subscription :: "ActivatedSubscription option"
  error :: "string option"

definition failed :: "thrown \<Rightarrow> ActivationResult" where
  "failed e =
     \<lparr>success = False, subscription = None,
      error = Some (case e of Error message \<Rightarrow> message
                             | NonError \<Rightarrow> ''Failed to activate subscription'')\<rparr>"

definition activated :: "Clock \<Rightarrow> Subscription \<Rightarrow> real \<Rightarrow> ActivatedSubscription" where
  "activated clk s cashbackAmount =
     \<lparr>sub_id = replaceSpaces False (toLowerCase (name s)) @ ''-'' @ showInt (idNow clk),
      name = name s, price = price s, solPrice = solPrice s, period = period s,
      estimated = estimated s, region = region s, category = category s,
      activatedAt = activatedNow clk,
      expiresAt = expiresNow clk + getPeriodInMs (period s),
      status = active,
      cashbackEarned = Some cashbackAmount\<rparr>"

text \<open>
  \<^verbatim>\<open>activateSubscription\<close>. The two-second delay and the console output have no effect
  on the store. The body of the \<^verbatim>\<open>try\<close> can throw only in the two cashback calls, which
  come before the \<^verbatim>\<open>push\<close>; the \<^verbatim>\<open>catch\<close> turns what was thrown into a result.
\<close>

definition activateSubscription ::
  "CashbackService \<Rightarrow> Clock \<Rightarrow> Store \<Rightarrow> Subscription \<Rightarrow> ActivationResult \<times> Store" where
  "activateSubscription cs clk store s =
     (case calculateCashback cs (price s) of
        Inl e \<Rightarrow> (failed e, store)
      | Inr cashbackAmount \<Rightarrow>
          (case earnCashback cs (name s) (price s) of
             Some e \<Rightarrow> (failed e, store)
           | None \<Rightarrow>
               (\<lparr>success = True,
                 subscription = Some (activated clk s cashbackAmount),
                 error = None\<rparr>,
                store @ [activated clk s cashbackAmount])))"

definition getActivatedSubscriptions :: "Store \<Rightarrow> ActivatedSubscription list" where
  "getActivatedSubscriptions store = filter (\<lambda>sub. status sub = active) store"

definition getActivatedSubscriptionsByCategory ::
  "string \<Rightarrow> Store \<Rightarrow> ActivatedSubscription list" where
  "getActivatedSubscriptionsByCategory cat store =
     filter (\<lambda>sub. category sub = cat \<and> status sub = active) store"

definition isSubscriptionActivated :: "string \<Rightarrow> Store \<Rightarrow> bool" where
  "isSubscriptionActivated subscriptionName store =
     list_ex (\<lambda>sub. name sub = subscriptionName \<and> status sub = active) store"

text \<open>
  \<^verbatim>\<open>cancelSubscription\<close>: \<^verbatim>\<open>find\<close> returns the first element whose id matches, and the
  assignment to its \<^verbatim>\<open>status\<close> changes that element of the array in place.
\<close>

fun cancelFirst :: "string \<Rightarrow> Store \<Rightarrow> Store" where
  "cancelFirst subscriptionId [] = []"
| "cancelFirst subscriptionId (sub # rest) =
     (if sub_id sub = subscriptionId then sub\<lparr>status := cancelled\<rparr> # rest
      else sub # cancelFirst subscriptionId rest)"

definition cancelSubscription :: "string \<Rightarrow> Store \<Rightarrow> bool \<times> Store" where
  "cancelSubscription subscriptionId store =
     (case find (\<lambda>sub. sub_id sub = subscriptionId) store of
        Some sub \<Rightarrow> (True, cancelFirst subscriptionId store)
      | None \<Rightarrow> (False, store))"

subsection \<open>The payment hook (src/hooks/useSubscriptionPayment.ts)\<close>

text \<open>
  \<^verbatim>\<open>processPayment\<close> replaces an empty category by \<^verbatim>\<open>Unknown\<close>
  (\<^verbatim>\<open>subscription.category || 'Unknown'\<close>) and hands the subscription to the service;
  it returns the result of the service. The two React state cells it sets along the way
  (\<^verbatim>\<open>isProcessing\<close>, \<^verbatim>\<open>paymentResult\<close>) are not part of the store.
\<close>

definition processPayment ::
  "CashbackService \<Rightarrow> Clock \<Rightarrow> Store \<Rightarrow> Subscription \<Rightarrow> ActivationResult \<times> Store" where
  "processPayment cs clk store s =
     activateSubscription cs clk store
       (s\<lparr>category := (if category s = [] then ''Unknown'' else category s)\<rparr>)"

subsection \<open>The expiry invariant\<close>

text \<open>
  The property of the store that the lifecycle is expected to keep: every record expires
  strictly after it was activated.
\<close>

definition expiresAfterActivation :: "Store \<Rightarrow> bool" where
  "expiresAfterActivation store = list_all (\<lambda>sub. activatedAt sub < expiresAt sub) store"

section \<open>The on-chain ledger\<close>

text \<open>
  The program that processes payments, mints cashback and keeps the global counters is
  called by the integration tests and by the deployment script, but its own code is not
  among the sources. Each definition of this section is therefore written from the
  specification, and says so.
\<close>

subsection \<open>Data model\<close>

text \<open>Modelled from the spec: the error kinds of section 7; the program is missing.\<close>

datatype LedgerError = InvalidAmount | AlreadyExists | NotFound | InvalidState | InsufficientBalance

text \<open>Modelled from the spec: the status of a Payment (section 3); the program is missing.\<close>

datatype PaymentStatus = Pending | Completed | Failed

text \<open>Modelled from the spec: the status of a Subscription (section 3); the program is missing.\<close>

datatype SubscriptionStatus = Active | Expired | Cancelled

type_synonym user = string

text \<open>
  Modelled from the spec: the singleton GlobalLedger of section 3, whose account the
  missing program owns. The counters are integers.
\<close>

record GlobalLedger =
  authority :: user
  totalSubscriptions :: int
  totalPayments :: int
  totalCashbackMinted :: int

text \<open>
  Modelled from the spec: the Payment record of section 3, with the three parts of its
  identity and its fields; the program that writes it is missing.
\<close>

record Payment =
  payUser :: user
  paySubscriptionId :: nat
  paySequenceNumber :: nat
  payAmount :: int
  paySolAmount :: int
  payStatus :: PaymentStatus
  payTimestamp :: int

text \<open>
  Modelled from the spec: the Subscription record of section 3; its identity, the pair of
  user and subscription id, is the key under which the ledger stores it. The program that
  writes it is missing.
\<close>

record LedgerSubscription =
  subAmount :: int
  subStatus :: SubscriptionStatus
  activationDate :: int
  expirationDate :: int
  cancellationDate :: "int option"

text \<open>Modelled from the spec: the CashbackRedemption record of section 3; the program is missing.\<close>

record CashbackRedemption =
  redUser :: user
  redAmount :: int
  redTimestamp :: int

text \<open>
  Modelled from the spec: the Ledger Store of section 4.1, the keyed storage of the missing
  program, with the running cashback balance of every user (a token balance, so a natural
  number; a user never credited has balance zero).
\<close>

record Ledger =
  global :: GlobalLedger
  payments :: "Payment list"
  subscriptions :: "user \<times> nat \<rightharpoonup> LedgerSubscription"
  redemptions :: "CashbackRedemption list"
  balances :: "user \<Rightarrow> nat"

subsection \<open>Operations\<close>

text \<open>
  Modelled from the spec: \<^verbatim>\<open>initialize\<close> of the missing program creates the GlobalLedger
  exactly once, with all counters zero, and fails with AlreadyExists on a second call.
\<close>

definition initialize :: "Ledger option \<Rightarrow> user \<Rightarrow> LedgerError + Ledger" where
  "initialize existing auth =
     (case existing of
        Some L \<Rightarrow> Inl AlreadyExists
      | None \<Rightarrow>
          Inr \<lparr>global = \<lparr>authority = auth, totalSubscriptions = 0, totalPayments = 0,
                         totalCashbackMinted = 0\<rparr>,
               payments = [], subscriptions = Map.empty, redemptions = [],
               balances = (\<lambda>u. 0)\<rparr>)"

text \<open>
  Modelled from the spec: \<^verbatim>\<open>computeCashback\<close> of section 4.2, which stands for
  \<^verbatim>\<open>cashbackService.calculateCashback\<close> and for the minting of the missing program:
  it returns \<^verbatim>\<open>floor(amount * 0.10)\<close>.
\<close>

definition computeCashback :: "int \<Rightarrow> int" where
  "computeCashback amount = \<lfloor>real_of_int amount * 0.10\<rfloor>"

text \<open>
  Modelled from the spec: \<^verbatim>\<open>accrue\<close> of section 4.2 (the missing program's minting
  step) increases the balance of the user and \<^verbatim>\<open>totalCashbackMinted\<close> by
  \<^verbatim>\<open>computeCashback(amount)\<close>.
\<close>

definition accrue :: "Ledger \<Rightarrow> user \<Rightarrow> int \<Rightarrow> Ledger" where
  "accrue L u amount =
     L\<lparr>balances := (balances L)(u := balances L u + nat (computeCashback amount)),
       global := (global L)\<lparr>totalCashbackMinted :=
                   totalCashbackMinted (global L) + computeCashback amount\<rparr>\<rparr>"

text \<open>
  Modelled from the spec: \<^verbatim>\<open>redeem\<close> of section 4.2 (\<^verbatim>\<open>redeemCashback\<close> of the missing
  program). It fails with InsufficientBalance if the amount exceeds the current balance
  and with InvalidAmount if the amount is not positive; otherwise it decreases the balance
  and \<^verbatim>\<open>totalCashbackMinted\<close> by the amount and records a CashbackRedemption. A failed
  call returns the ledger it was given.
\<close>

definition redeem :: "Ledger \<Rightarrow> user \<Rightarrow> int \<Rightarrow> int \<Rightarrow> (LedgerError + nat) \<times> Ledger" where
  "redeem L u amount now =
     (if amount > int (balances L u) then (Inl InsufficientBalance, L)
      else if amount \<le> 0 then (Inl InvalidAmount, L)
      else (Inr (balances L u - nat amount),
            L\<lparr>balances := (balances L)(u := balances L u - nat amount),
              redemptions := redemptions L @
                 [\<lparr>redUser = u, redAmount = amount, redTimestamp = now\<rparr>],
              global := (global L)\<lparr>totalCashbackMinted :=
                          totalCashbackMinted (global L) - amount\<rparr>\<rparr>))"

text \<open>
  Modelled from the spec: \<^verbatim>\<open>periodDuration\<close> of section 4.3 for the missing program:
  1, 7, 30 and 365 days for day, week, month and year, the year for any other kind. The
  length of a day in the time unit of the ledger is the first argument.
\<close>

definition periodDuration :: "int \<Rightarrow> string \<Rightarrow> int" where
  "periodDuration day kind =
     (if kind = ''day'' then 1 else if kind = ''week'' then 7
      else if kind = ''month'' then 30 else 365) * day"

text \<open>
  Modelled from the spec: \<^verbatim>\<open>activate\<close> of section 4.3 for the missing program. It
  fails with AlreadyExists if the pair of user and subscription id has a record, and
  otherwise stores an Active subscription that expires one period after its activation.
\<close>

definition activate ::
  "Ledger \<Rightarrow> user \<Rightarrow> nat \<Rightarrow> int \<Rightarrow> string \<Rightarrow> int \<Rightarrow> int \<Rightarrow> LedgerError + Ledger" where
  "activate L u subscriptionId amount kind now day =
     (case subscriptions L (u, subscriptionId) of
        Some existing \<Rightarrow> Inl AlreadyExists
      | None \<Rightarrow>
          Inr (L\<lparr>subscriptions := (subscriptions L)((u, subscriptionId) \<mapsto>
                 \<lparr>subAmount = amount, subStatus = Active, activationDate = now,
                  expirationDate = now + periodDuration day kind,
                  cancellationDate = None\<rparr>)\<rparr>))"

text \<open>
  Modelled from the spec: \<^verbatim>\<open>processSubscriptionPayment\<close> of section 4.4, the instruction
  of the missing program, with the five steps of its algorithm in their order: the Pending
  payment, the activation, the accrual, the completion of the payment, the counters. The
  steps work on copies of the ledger (\<open>L1\<close> to \<open>L5\<close>); a failure returns the ledger the
  call was given, which is the rollback that the spec asks for. A violated precondition on
  the amounts is InvalidAmount.
\<close>

definition processSubscriptionPayment ::
  "Ledger \<Rightarrow> user \<Rightarrow> nat \<Rightarrow> int \<Rightarrow> int \<Rightarrow> string \<Rightarrow> int \<Rightarrow> int
     \<Rightarrow> (LedgerError + Payment) \<times> Ledger" where
  "processSubscriptionPayment L u subscriptionId amount solAmount kind now day =
     (if amount \<le> 0 \<or> solAmount < 0 then (Inl InvalidAmount, L)
      else
        let pending = \<lparr>payUser = u, paySubscriptionId = subscriptionId,
                       paySequenceNumber =
                         length (filter (\<lambda>p. payUser p = u \<and> paySubscriptionId p = subscriptionId)
                                   (payments L)),
                       payAmount = amount, paySolAmount = solAmount, payStatus = Pending,
                       payTimestamp = now\<rparr>;
            L1 = L\<lparr>payments := payments L @ [pending]\<rparr>
        in case activate L1 u subscriptionId amount kind now day of
             Inl e \<Rightarrow> (Inl e, L)
           | Inr L2 \<Rightarrow>
               let L3 = accrue L2 u amount;
                   completed = pending\<lparr>payStatus := Completed\<rparr>;
                   L4 = L3\<lparr>payments := (payments L3)[length (payments L) := completed]\<rparr>;
                   L5 = L4\<lparr>global := (global L4)
                           \<lparr>totalPayments := totalPayments (global L4) + 1,
                            totalSubscriptions := totalSubscriptions (global L4) + 1\<rparr>\<rparr>
               in (Inr completed, L5))"

section \<open>Example data\<close>

text \<open>
  A subscription of 599.40 a year, the amount of the integration test; a cashback service
  that computes ten percent as the README does (\<^verbatim>\<open>price * 0.10\<close>) and never throws; a
  clock that stands still during one activation and one that advances by a millisecond
  before the expiry is computed.
\<close>

definition exampleSubscription :: Subscription where
  "exampleSubscription =
     \<lparr>sub_id = ''1'', name = ''Netflix Premium'', price = 599.4, solPrice = 0.1,
      period = ''year'', estimated = None, region = None, category = ''Streaming''\<rparr>"

definition exampleService :: CashbackService where
  "exampleService =
     \<lparr>calculateCashback = (\<lambda>price. Inr (price * 0.10)),
      earnCashback = (\<lambda>subscriptionName price. None)\<rparr>"

definition stillClock :: Clock where
  "stillClock = \<lparr>idNow = 1000, activatedNow = 1000, expiresNow = 1000\<rparr>"

definition tickingClock :: Clock where
  "tickingClock = \<lparr>idNow = 1000, activatedNow = 1000, expiresNow = 1001\<rparr>"

definition exampleRecord :: ActivatedSubscription where
  "exampleRecord =
     \<lparr>sub_id = ''netflix-premium-1000'', name = ''Netflix Premium'', price = 599.4,
      solPrice = 0.1, period = ''year'', estimated = None, region = None,
      category = ''Streaming'', activatedAt = 1000, expiresAt = 31536001000,
      status = active, cashbackEarned = Some 59.94\<rparr>"

text \<open>
  A clock that is set back by a day between the reading for \<^verbatim>\<open>activatedAt\<close> and the
  reading for \<^verbatim>\<open>expiresAt\<close>, and the example subscription with a period of a day.
\<close>

definition backwardClock :: Clock where
  "backwardClock = \<lparr>idNow = 5, activatedNow = 86400000, expiresNow = 0\<rparr>"

definition dailySubscription :: Subscription where
  "dailySubscription = exampleSubscription\<lparr>period := ''day''\<rparr>"

text \<open>
  A cashback service whose first call throws, and a store of three records: one of
  another subscription, and the example record twice.
\<close>

definition throwingService :: CashbackService where
  "throwingService =
     \<lparr>calculateCashback = (\<lambda>price. Inl (Error ''cashback unavailable'')),
      earnCashback = (\<lambda>subscriptionName price. None)\<rparr>"

definition exampleStore :: Store where
  "exampleStore =
     [exampleRecord\<lparr>sub_id := ''hulu-1000'', name := ''Hulu''\<rparr>, exampleRecord, exampleRecord]"

text \<open>The ledger after \<^verbatim>\<open>initialize\<close>, and after the payment of the integration test.\<close>

definition emptyLedger :: Ledger where
  "emptyLedger =
     \<lparr>global = \<lparr>authority = ''authority'', totalSubscriptions = 0, totalPayments = 0,
                totalCashbackMinted = 0\<rparr>,
      payments = [], subscriptions = Map.empty, redemptions = [], balances = (\<lambda>u. 0)\<rparr>"

definition paidLedger :: Ledger where
  "paidLedger =
     snd (processSubscriptionPayment emptyLedger ''alice'' 1 59940 100000000 ''year''
            1700000000 86400)"

definition examplePayment :: Payment where
  "examplePayment =
     \<lparr>payUser = ''alice'', paySubscriptionId = 1, paySequenceNumber = 0, payAmount = 59940,
      paySolAmount = 100000000, payStatus = Completed, payTimestamp = 1700000000\<rparr>"

section \<open>Facts about the subscription service\<close>

subsection \<open>Evaluating the examples\<close>

lemma activated_example: "activated stillClock exampleSubscription 59.94 = exampleRecord"
  by (simp add: activated_def stillClock_def exampleSubscription_def exampleRecord_def
      getPeriodInMs_def toLowerCase_def lowerChar_def isSpace_def showInt_def char_of_def
      bit_Suc_0_iff)

lemma exampleService_calculates:
  "calculateCashback exampleService (price exampleSubscription) = Inr 59.94"
  by (simp add: exampleService_def exampleSubscription_def)

lemma exampleService_earns:
  "earnCashback exampleService (name exampleSubscription) (price exampleSubscription) = None"
  by (simp add: exampleService_def)

lemma activate_example:
  "activateSubscription exampleService stillClock store exampleSubscription =
     (\<lparr>success = True, subscription = Some exampleRecord, error = None\<rparr>,
      store @ [exampleRecord])"
  unfolding activateSubscription_def
  by (simp only: exampleService_calculates exampleService_earns sum.case option.case
      activated_example)

lemma activate_ticking_example:
  "activateSubscription exampleService tickingClock store exampleSubscription =
     (\<lparr>success = True, subscription = Some (exampleRecord\<lparr>expiresAt := 31536001001\<rparr>),
       error = None\<rparr>,
      store @ [exampleRecord\<lparr>expiresAt := 31536001001\<rparr>])"
proof -
  have "activated tickingClock exampleSubscription 59.94
          = exampleRecord\<lparr>expiresAt := 31536001001\<rparr>"
    by (simp add: activated_def tickingClock_def exampleSubscription_def exampleRecord_def
        getPeriodInMs_def toLowerCase_def lowerChar_def isSpace_def showInt_def char_of_def
        bit_Suc_0_iff)
  then show ?thesis
    unfolding activateSubscription_def
    by (simp only: exampleService_calculates exampleService_earns sum.case option.case)
qed

lemma period_examples:
  "getPeriodInMs ''day'' = 86400000"
  "getPeriodInMs ''Week'' = 604800000"
  "getPeriodInMs ''MONTH'' = 2592000000"
  "getPeriodInMs ''year'' = 31536000000"
  "getPeriodInMs ''fortnight'' = 31536000000"
  by (simp_all add: getPeriodInMs_def toLowerCase_def lowerChar_def char_of_def bit_Suc_0_iff)

lemma lower_examples:
  "toLowerCase ''day'' = ''day''"
  "toLowerCase ''Week'' = ''week''"
  "toLowerCase ''MONTH'' = ''month''"
  "toLowerCase ''year'' = ''year''"
  "toLowerCase ''fortnight'' = ''fortnight''"
  by (simp_all add: toLowerCase_def lowerChar_def char_of_def bit_Suc_0_iff)

subsection \<open>Cancelling the first match\<close>

lemma length_cancelFirst: "length (cancelFirst k store) = length store"
  by (induction store) auto

lemma cancelFirst_nth_fields:
  "i < length store \<Longrightarrow> (cancelFirst k store ! i)\<lparr>status := status (store ! i)\<rparr> = store ! i"
proof (induction store arbitrary: i)
  case Nil
  then show ?case by simp
next
  case (Cons sub rest)
  show ?case
  proof (cases i)
    case 0
    then show ?thesis by simp
  next
    case (Suc j)
    with Cons show ?thesis by simp
  qed
qed

lemma cancelFirst_nth_changed:
  "i < length store \<Longrightarrow> cancelFirst k store ! i \<noteq> store ! i \<Longrightarrow>
     sub_id (store ! i) = k \<and> (\<forall>j<i. sub_id (store ! j) \<noteq> k)"
proof (induction store arbitrary: i)
  case Nil
  then show ?case by simp
next
  case (Cons sub rest)
  show ?case
  proof (cases "sub_id sub = k")
    case True
    with Cons.prems show ?thesis by (cases i) auto
  next
    case False
    with Cons.prems obtain i' where i': "i = Suc i'" by (cases i) auto
    with Cons.prems False have "i' < length rest" "cancelFirst k rest ! i' \<noteq> rest ! i'"
      by auto
    then have IH: "sub_id (rest ! i') = k \<and> (\<forall>j<i'. sub_id (rest ! j) \<noteq> k)"
      by (rule Cons.IH)
    show ?thesis
    proof (intro conjI allI impI)
      show "sub_id ((sub # rest) ! i) = k" using IH i' by simp
    next
      fix j assume "j < i"
      then show "sub_id ((sub # rest) ! j) \<noteq> k"
        using IH i' False by (cases j) auto
    qed
  qed
qed

lemma find_cancelFirst:
  "find (\<lambda>sub. sub_id sub = k) store = Some sub \<Longrightarrow>
     find (\<lambda>sub. sub_id sub = k) (cancelFirst k store) = Some (sub\<lparr>status := cancelled\<rparr>)"
  by (induction store) (auto split: if_splits)

lemma cancelFirst_keeps_expiry:
  "expiresAfterActivation store \<Longrightarrow> expiresAfterActivation (cancelFirst k store)"
  unfolding expiresAfterActivation_def by (induction store) auto

lemma getPeriodInMs_pos: "0 < getPeriodInMs p"
  by (simp add: getPeriodInMs_def Let_def)

lemma cancel_in_exampleStore:
  "cancelSubscription ''netflix-premium-1000'' exampleStore =
     (True, [exampleRecord\<lparr>sub_id := ''hulu-1000'', name := ''Hulu''\<rparr>,
             exampleRecord\<lparr>status := cancelled\<rparr>, exampleRecord])"
  by (simp add: cancelSubscription_def exampleStore_def exampleRecord_def)

subsection \<open>The claims about the service\<close>

text \<open>
  Claim C3, as the service has it. \<^verbatim>\<open>cancelSubscription\<close> returns \<^verbatim>\<open>false\<close> and leaves the
  store as it is when no record has the id. Otherwise it returns \<^verbatim>\<open>true\<close> and the first
  record with the id has status \<^verbatim>\<open>cancelled\<close> afterwards, whatever its status was: there
  is no check of the current status and the record has no cancellation date.
\<close>

theorem cancelSubscription_ignores_status:
  "(find (\<lambda>sub. sub_id sub = subscriptionId) store = None \<longrightarrow>
      cancelSubscription subscriptionId store = (False, store)) \<and>
   (\<forall>sub. find (\<lambda>sub. sub_id sub = subscriptionId) store = Some sub \<longrightarrow>
      fst (cancelSubscription subscriptionId store) = True \<and>
      find (\<lambda>sub. sub_id sub = subscriptionId) (snd (cancelSubscription subscriptionId store))
        = Some (sub\<lparr>status := cancelled\<rparr>))"
  by (auto simp: cancelSubscription_def find_cancelFirst)

theorem cancelSubscription_ignores_status_witness:
  "find (\<lambda>sub. sub_id sub = ''netflix-premium-1000'') exampleStore = Some exampleRecord \<and>
   fst (cancelSubscription ''netflix-premium-1000'' exampleStore) = True \<and>
   find (\<lambda>sub. sub_id sub = ''netflix-premium-1000'')
     (snd (cancelSubscription ''netflix-premium-1000'' exampleStore))
     = Some (exampleRecord\<lparr>status := cancelled\<rparr>) \<and>
   find (\<lambda>sub. sub_id sub = ''disney-1000'') exampleStore = None \<and>
   cancelSubscription ''disney-1000'' exampleStore = (False, exampleStore)"
proof -
  have found: "find (\<lambda>sub. sub_id sub = ''netflix-premium-1000'') exampleStore
                 = Some exampleRecord"
    by (simp add: exampleStore_def exampleRecord_def)
  have missing: "find (\<lambda>sub. sub_id sub = ''disney-1000'') exampleStore = None"
    by (simp add: exampleStore_def exampleRecord_def)
  from cancelSubscription_ignores_status [of "''netflix-premium-1000''" exampleStore] found
  have hit: "fst (cancelSubscription ''netflix-premium-1000'' exampleStore) = True \<and>
      find (\<lambda>sub. sub_id sub = ''netflix-premium-1000'')
        (snd (cancelSubscription ''netflix-premium-1000'' exampleStore))
        = Some (exampleRecord\<lparr>status := cancelled\<rparr>)"
    by (elim conjE allE [of _ exampleRecord]) (erule mp)
  from cancelSubscription_ignores_status [of "''disney-1000''" exampleStore] missing
  have miss: "cancelSubscription ''disney-1000'' exampleStore = (False, exampleStore)"
    by (elim conjE) (erule mp)
  from found hit missing miss show ?thesis by (intro conjI) (elim conjE, assumption)+
qed

text \<open>
  Claim C3 as it is written fails: a second cancellation of the same subscription, whose
  status is then \<^verbatim>\<open>cancelled\<close> and not \<^verbatim>\<open>active\<close>, does not fail. It returns \<^verbatim>\<open>true\<close>
  like the first one.
\<close>

theorem cancel_twice_succeeds:
  "cancelSubscription ''netflix-premium-1000'' [exampleRecord]
     = (True, [exampleRecord\<lparr>status := cancelled\<rparr>]) \<and>
   status (exampleRecord\<lparr>status := cancelled\<rparr>) \<noteq> active \<and>
   cancelSubscription ''netflix-premium-1000'' [exampleRecord\<lparr>status := cancelled\<rparr>]
     = (True, [exampleRecord\<lparr>status := cancelled\<rparr>])"
  by (simp add: cancelSubscription_def exampleRecord_def)

text \<open>
  Claim C4, as the service has it. \<^verbatim>\<open>activateSubscription\<close> does not look at the records
  that exist: whenever neither cashback call throws it succeeds and appends exactly one
  new record to the store, and it fails only when a cashback call throws, in which case
  the store is the one it was given.
\<close>

theorem activateSubscription_always_appends:
  "(\<forall>c. calculateCashback cs (price s) = Inr c \<and> earnCashback cs (name s) (price s) = None \<longrightarrow>
      activateSubscription cs clk store s =
        (\<lparr>success = True, subscription = Some (activated clk s c), error = None\<rparr>,
         store @ [activated clk s c])) \<and>
   (\<not> success (fst (activateSubscription cs clk store s)) \<longrightarrow>
      snd (activateSubscription cs clk store s) = store \<and>
      ((\<exists>e. calculateCashback cs (price s) = Inl e) \<or>
       (\<exists>e. earnCashback cs (name s) (price s) = Some e)))"
  by (auto simp: activateSubscription_def failed_def split: sum.splits option.splits)

theorem activateSubscription_always_appends_witness:
  "calculateCashback exampleService (price exampleSubscription) = Inr 59.94 \<and>
   earnCashback exampleService (name exampleSubscription) (price exampleSubscription) = None \<and>
   activateSubscription exampleService tickingClock exampleStore exampleSubscription =
     (\<lparr>success = True,
       subscription = Some (activated tickingClock exampleSubscription 59.94),
       error = None\<rparr>,
      exampleStore @ [activated tickingClock exampleSubscription 59.94]) \<and>
   \<not> success (fst (activateSubscription throwingService tickingClock exampleStore
                     exampleSubscription)) \<and>
   snd (activateSubscription throwingService tickingClock exampleStore exampleSubscription)
     = exampleStore"
proof -
  have thrown: "\<not> success (fst (activateSubscription throwingService tickingClock exampleStore
                         exampleSubscription))"
    by (simp add: activateSubscription_def throwingService_def failed_def)
  from activateSubscription_always_appends
        [of exampleService exampleSubscription tickingClock exampleStore]
    exampleService_calculates exampleService_earns
  have ok: "activateSubscription exampleService tickingClock exampleStore exampleSubscription =
     (\<lparr>success = True,
       subscription = Some (activated tickingClock exampleSubscription 59.94),
       error = None\<rparr>,
      exampleStore @ [activated tickingClock exampleSubscription 59.94])"
    by (elim conjE allE [of _ "59.94"]) (erule mp, rule conjI)
  from activateSubscription_always_appends
        [of throwingService exampleSubscription tickingClock exampleStore] thrown
  have same: "snd (activateSubscription throwingService tickingClock exampleStore
                exampleSubscription) = exampleStore"
    by (elim conjE) (drule (1) mp, erule conjunct1)
  from exampleService_calculates exampleService_earns ok thrown same
  show ?thesis by (intro conjI)
qed

text \<open>
  Claim C4 as it is written fails: activating the subscription a second time, at the same
  clock reading and so under the very id of the record that exists, succeeds and leaves
  two records in the store.
\<close>

theorem activate_twice_succeeds:
  "snd (activateSubscription exampleService stillClock [] exampleSubscription)
     = [exampleRecord] \<and>
   success (fst (activateSubscription exampleService stillClock [exampleRecord]
                   exampleSubscription)) \<and>
   error (fst (activateSubscription exampleService stillClock [exampleRecord]
                 exampleSubscription)) = None \<and>
   snd (activateSubscription exampleService stillClock [exampleRecord] exampleSubscription)
     = [exampleRecord, exampleRecord]"
  by (simp add: activate_example)

text \<open>
  Claim C5, as the service has it. The reads that report active subscriptions look at the
  stored status and at nothing else. A record is listed by \<^verbatim>\<open>getActivatedSubscriptions\<close>
  exactly when it is in the store with status \<^verbatim>\<open>active\<close> (and by category, when its
  category matches too). \<^verbatim>\<open>isSubscriptionActivated\<close> is asked about a name, not about a
  record: it holds exactly when some stored record of that name has status \<^verbatim>\<open>active\<close>.
  In particular a record whose expiry lies before any given time \<open>now\<close> but whose status
  is still \<^verbatim>\<open>active\<close> is reported as active by both.
\<close>

theorem status_reads_use_stored_status:
  "(sub \<in> set (getActivatedSubscriptions store) \<longleftrightarrow> sub \<in> set store \<and> status sub = active) \<and>
   (sub \<in> set (getActivatedSubscriptionsByCategory cat store) \<longleftrightarrow>
      sub \<in> set store \<and> category sub = cat \<and> status sub = active) \<and>
   (isSubscriptionActivated n store \<longleftrightarrow>
      (\<exists>sub \<in> set store. name sub = n \<and> status sub = active)) \<and>
   (sub \<in> set store \<and> status sub = active \<and> expiresAt sub < now \<longrightarrow>
      sub \<in> set (getActivatedSubscriptions store) \<and> isSubscriptionActivated (name sub) store)"
  by (auto simp: getActivatedSubscriptions_def getActivatedSubscriptionsByCategory_def
      isSubscriptionActivated_def list_ex_iff)

theorem status_reads_use_stored_status_witness:
  "exampleRecord \<in> set exampleStore \<and> status exampleRecord = active \<and>
   expiresAt exampleRecord < 40000000000 \<and>
   exampleRecord \<in> set (getActivatedSubscriptions exampleStore) \<and>
   isSubscriptionActivated (name exampleRecord) exampleStore"
proof -
  have pre: "exampleRecord \<in> set exampleStore \<and> status exampleRecord = active \<and>
        expiresAt exampleRecord < 40000000000"
    by (simp add: exampleStore_def exampleRecord_def)
  from status_reads_use_stored_status
      [of exampleRecord exampleStore "''Streaming''" "''Netflix Premium''" 40000000000] pre
  have "exampleRecord \<in> set (getActivatedSubscriptions exampleStore) \<and>
        isSubscriptionActivated (name exampleRecord) exampleStore"
    by (elim conjE) (erule mp, intro conjI)
  with pre show ?thesis by (elim conjE, intro conjI)
qed

text \<open>
  Claim C5 as it is written fails for \<^verbatim>\<open>isSubscriptionActivated\<close>: when the store holds
  a cancelled record and an active record of the same name, the cancelled record, whose
  own status is not \<^verbatim>\<open>active\<close>, is reported as activated under its name.
\<close>

theorem cancelled_record_reported_active:
  "exampleRecord\<lparr>status := cancelled\<rparr>
     \<in> set [exampleRecord\<lparr>status := cancelled\<rparr>, exampleRecord] \<and>
   status (exampleRecord\<lparr>status := cancelled\<rparr>) \<noteq> active \<and>
   isSubscriptionActivated (name (exampleRecord\<lparr>status := cancelled\<rparr>))
     [exampleRecord\<lparr>status := cancelled\<rparr>, exampleRecord]"
  by (simp add: isSubscriptionActivated_def exampleRecord_def)

text \<open>
  Claim C6, as the service has it. \<^verbatim>\<open>getPeriodInMs\<close> lower-cases the period and maps
  day, week, month and year to 1, 7, 30 and 365 days in milliseconds, and every other
  string to 365 days. The activated record has \<^verbatim>\<open>activatedAt\<close> equal to one clock reading
  and \<^verbatim>\<open>expiresAt\<close> equal to a later reading plus that duration, so that
  \<^verbatim>\<open>expiresAt = activatedAt + duration\<close> whenever the two readings agree.
\<close>

theorem expiry_is_clock_plus_period:
  "(toLowerCase p = ''day'' \<longrightarrow> getPeriodInMs p = 1 * 86400000) \<and>
   (toLowerCase p = ''week'' \<longrightarrow> getPeriodInMs p = 7 * 86400000) \<and>
   (toLowerCase p = ''month'' \<longrightarrow> getPeriodInMs p = 30 * 86400000) \<and>
   (toLowerCase p = ''year'' \<longrightarrow> getPeriodInMs p = 365 * 86400000) \<and>
   (toLowerCase p \<notin> {''day'', ''week'', ''month'', ''year''} \<longrightarrow>
      getPeriodInMs p = 365 * 86400000) \<and>
   (\<forall>a. subscription (fst (activateSubscription cs clk store s)) = Some a \<longrightarrow>
      last (snd (activateSubscription cs clk store s)) = a \<and>
      activatedAt a = activatedNow clk \<and>
      expiresAt a = expiresNow clk + getPeriodInMs (period s) \<and>
      (activatedNow clk = expiresNow clk \<longrightarrow>
         expiresAt a = activatedAt a + getPeriodInMs (period s)))"
  by (auto simp: getPeriodInMs_def Let_def activateSubscription_def failed_def activated_def
      split: sum.splits option.splits)

theorem expiry_is_clock_plus_period_witness:
  "toLowerCase ''day'' = ''day'' \<and> getPeriodInMs ''day'' = 1 * 86400000 \<and>
   toLowerCase ''Week'' = ''week'' \<and> getPeriodInMs ''Week'' = 7 * 86400000 \<and>
   toLowerCase ''MONTH'' = ''month'' \<and> getPeriodInMs ''MONTH'' = 30 * 86400000 \<and>
   toLowerCase ''year'' = ''year'' \<and> getPeriodInMs ''year'' = 365 * 86400000 \<and>
   toLowerCase ''fortnight'' \<notin> {''day'', ''week'', ''month'', ''year''} \<and>
   getPeriodInMs ''fortnight'' = 365 * 86400000 \<and>
   subscription (fst (activateSubscription exampleService stillClock exampleStore
                        exampleSubscription)) = Some exampleRecord \<and>
   activatedNow stillClock = expiresNow stillClock \<and>
   expiresAt exampleRecord = activatedAt exampleRecord + getPeriodInMs (period exampleSubscription)"
proof -
  note inst = expiry_is_clock_plus_period
    [of _ exampleService stillClock exampleStore exampleSubscription]
  have act: "subscription (fst (activateSubscription exampleService stillClock exampleStore
                        exampleSubscription)) = Some exampleRecord"
    by (simp add: activate_example)
  have clk: "activatedNow stillClock = expiresNow stillClock"
    by (simp add: stillClock_def)
  have other: "toLowerCase ''fortnight'' \<notin> {''day'', ''week'', ''month'', ''year''}"
    by (simp add: lower_examples)
  from inst [of "''day''"] lower_examples(1)
  have d: "getPeriodInMs ''day'' = 1 * 86400000" by (elim conjE) (erule mp)
  from inst [of "''Week''"] lower_examples(2)
  have w: "getPeriodInMs ''Week'' = 7 * 86400000" by (elim conjE) (erule mp)
  from inst [of "''MONTH''"] lower_examples(3)
  have m: "getPeriodInMs ''MONTH'' = 30 * 86400000" by (elim conjE) (erule mp)
  from inst [of "''year''"] lower_examples(4)
  have y: "getPeriodInMs ''year'' = 365 * 86400000" by (elim conjE) (erule mp)
  from inst [of "''fortnight''"] other
  have f: "getPeriodInMs ''fortnight'' = 365 * 86400000" by (elim conjE) (erule mp)
  from inst [of "''year''"] act clk
  have e: "expiresAt exampleRecord
             = activatedAt exampleRecord + getPeriodInMs (period exampleSubscription)"
    by (elim conjE allE [of _ exampleRecord]) (drule (1) mp, elim conjE, erule mp)
  from lower_examples d w m y other f act clk e show ?thesis by (intro conjI)
qed

text \<open>
  Claim C6 as it is written fails in two places. When the clock advances by a millisecond
  between the reading stored in \<^verbatim>\<open>activatedAt\<close> and the one used for the expiry, the
  record expires one millisecond later than \<^verbatim>\<open>activatedAt\<close> plus a year. And the period
  \<^verbatim>\<open>MONTH\<close>, which is none of the four strings day, week, month and year, does not get
  the default of 365 days but 30 days.
\<close>

theorem expiry_not_activation_plus_period:
  "expiresAt (last (snd (activateSubscription exampleService tickingClock [] exampleSubscription)))
     \<noteq> activatedAt (last (snd (activateSubscription exampleService tickingClock []
                                 exampleSubscription)))
         + getPeriodInMs (period exampleSubscription) \<and>
   ''MONTH'' \<notin> {''day'', ''week'', ''month'', ''year''} \<and>
   getPeriodInMs ''MONTH'' \<noteq> 365 * 86400000"
proof -
  have "period exampleSubscription = ''year''" by (simp add: exampleSubscription_def)
  then have "getPeriodInMs (period exampleSubscription) = 31536000000"
    by (simp only: period_examples)
  then show ?thesis
    by (simp add: activate_ticking_example period_examples exampleRecord_def)
qed

text \<open>
  Claim C8, as the service has it. Expiry after activation holds of the empty store and
  is kept by every cancellation. An activation (through the service or through the
  payment hook) keeps it whenever the reading stored in \<^verbatim>\<open>activatedAt\<close> lies before the
  reading used for \<^verbatim>\<open>expiresAt\<close> plus the period; since every period is positive, that
  is so whenever the clock does not run backwards between the two readings.
\<close>

theorem expiry_after_activation_invariant:
  "expiresAfterActivation [] \<and>
   (expiresAfterActivation store \<and>
    activatedNow clk < expiresNow clk + getPeriodInMs (period s) \<longrightarrow>
      expiresAfterActivation (snd (activateSubscription cs clk store s)) \<and>
      expiresAfterActivation (snd (processPayment cs clk store s))) \<and>
   (activatedNow clk \<le> expiresNow clk \<longrightarrow>
      activatedNow clk < expiresNow clk + getPeriodInMs (period s)) \<and>
   (expiresAfterActivation store \<longrightarrow>
      expiresAfterActivation (snd (cancelSubscription subscriptionId store)))"
proof (intro conjI impI)
  show "expiresAfterActivation []" by (simp add: expiresAfterActivation_def)
next
  have act: "expiresAfterActivation store \<and>
      activatedNow clk < expiresNow clk + getPeriodInMs (period s') \<Longrightarrow>
      expiresAfterActivation (snd (activateSubscription cs clk store s'))" for s'
    by (auto simp: activateSubscription_def expiresAfterActivation_def activated_def
        split: sum.splits option.splits)
  {
    assume h: "expiresAfterActivation store \<and>
               activatedNow clk < expiresNow clk + getPeriodInMs (period s)"
    show "expiresAfterActivation (snd (activateSubscription cs clk store s))"
      using act h by blast
    show "expiresAfterActivation (snd (processPayment cs clk store s))"
      unfolding processPayment_def using act h by simp
  }
next
  assume "activatedNow clk \<le> expiresNow clk"
  then show "activatedNow clk < expiresNow clk + getPeriodInMs (period s)"
    using getPeriodInMs_pos [of "period s"] by simp
next
  assume "expiresAfterActivation store"
  then show "expiresAfterActivation (snd (cancelSubscription subscriptionId store))"
    by (auto simp: cancelSubscription_def cancelFirst_keeps_expiry split: option.splits)
qed

theorem expiry_after_activation_invariant_witness:
  "expiresAfterActivation exampleStore \<and>
   activatedNow tickingClock \<le> expiresNow tickingClock \<and>
   activatedNow tickingClock
     < expiresNow tickingClock + getPeriodInMs (period exampleSubscription) \<and>
   expiresAfterActivation
     (snd (activateSubscription exampleService tickingClock exampleStore exampleSubscription)) \<and>
   expiresAfterActivation
     (snd (processPayment exampleService tickingClock exampleStore exampleSubscription)) \<and>
   expiresAfterActivation (snd (cancelSubscription ''netflix-premium-1000'' exampleStore))"
proof -
  note inst = expiry_after_activation_invariant
      [of exampleStore tickingClock exampleSubscription exampleService
        "''netflix-premium-1000''"]
  have inv: "expiresAfterActivation exampleStore"
    by (simp add: expiresAfterActivation_def exampleStore_def exampleRecord_def)
  have mono: "activatedNow tickingClock \<le> expiresNow tickingClock"
    by (simp add: tickingClock_def)
  from inst mono
  have before: "activatedNow tickingClock
      < expiresNow tickingClock + getPeriodInMs (period exampleSubscription)"
    by (elim conjE) (erule mp)
  from inst inv before have a: "expiresAfterActivation
     (snd (activateSubscription exampleService tickingClock exampleStore exampleSubscription)) \<and>
   expiresAfterActivation
     (snd (processPayment exampleService tickingClock exampleStore exampleSubscription))"
    by (elim conjE) (erule mp, intro conjI)
  from inst inv have c: "expiresAfterActivation
     (snd (cancelSubscription ''netflix-premium-1000'' exampleStore))"
    by (elim conjE) (erule mp)
  from inv mono before a c show ?thesis by (elim conjE, intro conjI)
qed

text \<open>
  Claim C8 as it is written fails: the two timestamps of a record come from separate
  readings of the clock. When the clock is set back by a day between them and the period
  is a day, the activation succeeds and the new record has \<^verbatim>\<open>expiresAt\<close> equal to
  \<^verbatim>\<open>activatedAt\<close>, not after it.
\<close>

theorem backward_clock_breaks_expiry:
  "expiresAfterActivation [] \<and>
   success (fst (activateSubscription exampleService backwardClock [] dailySubscription)) \<and>
   activatedAt (last (snd (activateSubscription exampleService backwardClock []
                             dailySubscription))) = 86400000 \<and>
   expiresAt (last (snd (activateSubscription exampleService backwardClock []
                           dailySubscription))) = 86400000 \<and>
   \<not> expiresAfterActivation
       (snd (activateSubscription exampleService backwardClock [] dailySubscription))"
proof -
  have p: "getPeriodInMs (period dailySubscription) = 86400000"
    by (simp add: dailySubscription_def period_examples)
  show ?thesis
    by (simp add: activateSubscription_def exampleService_def activated_def p
        expiresAfterActivation_def backwardClock_def)
qed

text \<open>
  Claim C10. \<^verbatim>\<open>cancelSubscription\<close> keeps the number of records, changes no field other
  than \<^verbatim>\<open>status\<close> in any record, and changes no record at all except the first one whose
  id matches.
\<close>

theorem cancelSubscription_frame:
  "cancelSubscription subscriptionId store = (r, store') \<Longrightarrow>
     length store' = length store \<and>
     (\<forall>i<length store. (store' ! i)\<lparr>status := status (store ! i)\<rparr> = store ! i) \<and>
     (\<forall>i<length store. store' ! i \<noteq> store ! i \<longrightarrow>
        sub_id (store ! i) = subscriptionId \<and> (\<forall>j<i. sub_id (store ! j) \<noteq> subscriptionId))"
proof (cases "find (\<lambda>sub. sub_id sub = subscriptionId) store")
  case None
  assume "cancelSubscription subscriptionId store = (r, store')"
  with None have "store' = store" by (simp add: cancelSubscription_def)
  then show ?thesis by simp
next
  case (Some sub)
  assume "cancelSubscription subscriptionId store = (r, store')"
  with Some have "store' = cancelFirst subscriptionId store" by (simp add: cancelSubscription_def)
  then show ?thesis
    using length_cancelFirst cancelFirst_nth_fields cancelFirst_nth_changed by blast
qed

theorem cancelSubscription_frame_witness:
  "cancelSubscription ''netflix-premium-1000'' exampleStore =
     (True, [exampleRecord\<lparr>sub_id := ''hulu-1000'', name := ''Hulu''\<rparr>,
             exampleRecord\<lparr>status := cancelled\<rparr>, exampleRecord]) \<and>
   length [exampleRecord\<lparr>sub_id := ''hulu-1000'', name := ''Hulu''\<rparr>,
           exampleRecord\<lparr>status := cancelled\<rparr>, exampleRecord] = length exampleStore \<and>
   ([exampleRecord\<lparr>sub_id := ''hulu-1000'', name := ''Hulu''\<rparr>,
     exampleRecord\<lparr>status := cancelled\<rparr>, exampleRecord] ! 0)
     \<lparr>status := status (exampleStore ! 0)\<rparr> = exampleStore ! 0 \<and>
   ([exampleRecord\<lparr>sub_id := ''hulu-1000'', name := ''Hulu''\<rparr>,
     exampleRecord\<lparr>status := cancelled\<rparr>, exampleRecord] ! 1)
     \<lparr>status := status (exampleStore ! 1)\<rparr> = exampleStore ! 1 \<and>
   ([exampleRecord\<lparr>sub_id := ''hulu-1000'', name := ''Hulu''\<rparr>,
     exampleRecord\<lparr>status := cancelled\<rparr>, exampleRecord] ! 2)
     \<lparr>status := status (exampleStore ! 2)\<rparr> = exampleStore ! 2 \<and>
   [exampleRecord\<lparr>sub_id := ''hulu-1000'', name := ''Hulu''\<rparr>,
    exampleRecord\<lparr>status := cancelled\<rparr>, exampleRecord] ! 1 \<noteq> exampleStore ! 1 \<and>
   sub_id (exampleStore ! 1) = ''netflix-premium-1000'' \<and>
   sub_id (exampleStore ! 0) \<noteq> ''netflix-premium-1000''"
proof -
  let ?after = "[exampleRecord\<lparr>sub_id := ''hulu-1000'', name := ''Hulu''\<rparr>,
                 exampleRecord\<lparr>status := cancelled\<rparr>, exampleRecord]"
  note frame = cancelSubscription_frame [OF cancel_in_exampleStore]
  have len: "length exampleStore = 3" by (simp add: exampleStore_def)
  from frame have same: "length ?after = length exampleStore" by (elim conjE)
  from frame len have fields:
    "i < 3 \<Longrightarrow> (?after ! i)\<lparr>status := status (exampleStore ! i)\<rparr> = exampleStore ! i" for i
    by simp
  have changed: "?after ! 1 \<noteq> exampleStore ! 1"
    by (simp add: exampleStore_def exampleRecord_def)
  from frame len changed
  have first: "sub_id (exampleStore ! 1) = ''netflix-premium-1000'' \<and>
               sub_id (exampleStore ! 0) \<noteq> ''netflix-premium-1000''"
    by (elim conjE allE [of _ 1]) simp
  from cancel_in_exampleStore same fields [of 0] fields [of 1] fields [of 2] changed first
  show ?thesis by simp
qed

section \<open>Facts about the ledger\<close>

lemma computeCashback_div: "computeCashback amount = amount div 10"
proof -
  have "real_of_int amount * 0.10 = real_of_int amount / real_of_int 10" by simp
  then show ?thesis
    unfolding computeCashback_def by (simp only: floor_divide_of_int_eq)
qed

lemma initialize_example: "initialize None ''authority'' = Inr emptyLedger"
  by (simp add: initialize_def emptyLedger_def)

lemma payment_example:
  "processSubscriptionPayment emptyLedger ''alice'' 1 59940 100000000 ''year'' 1700000000 86400
     = (Inr examplePayment, paidLedger)"
  by (simp add: paidLedger_def processSubscriptionPayment_def activate_def accrue_def
      emptyLedger_def examplePayment_def Let_def)

lemma paidLedger_values:
  "balances paidLedger ''alice'' = 5994"
  "totalCashbackMinted (global paidLedger) = 5994"
  "totalPayments (global paidLedger) = 1"
  "totalSubscriptions (global paidLedger) = 1"
  "payments paidLedger = [examplePayment]"
  "redemptions paidLedger = []"
  "map_option subStatus (subscriptions paidLedger (''alice'', 1)) = Some Active"
  by (simp_all add: paidLedger_def processSubscriptionPayment_def activate_def accrue_def
      emptyLedger_def examplePayment_def Let_def computeCashback_div)

lemma duplicate_payment_example:
  "processSubscriptionPayment paidLedger ''alice'' 1 59940 100000000 ''year'' 1700000500 86400
     = (Inl AlreadyExists, paidLedger)"
proof -
  have "subscriptions paidLedger (''alice'', 1) \<noteq> None"
    using paidLedger_values(7) by auto
  then show ?thesis
    by (auto simp: processSubscriptionPayment_def activate_def Let_def split: option.splits)
qed

text \<open>
  Claim C1. A call of \<^verbatim>\<open>processSubscriptionPayment\<close> that fails returns the ledger it was
  given: no record and no counter has changed. A call with a positive amount, a
  non-negative SOL amount and a fresh pair of user and subscription id succeeds. A call
  that succeeds has added exactly one payment, with status Completed, and exactly one
  subscription, with status Active, under a key that had none; it has increased the
  balance of the user and \<^verbatim>\<open>totalCashbackMinted\<close> by \<^verbatim>\<open>computeCashback(amount)\<close> and
  \<^verbatim>\<open>totalPayments\<close> and \<^verbatim>\<open>totalSubscriptions\<close> by one, and has changed nothing else.
\<close>

theorem processSubscriptionPayment_all_or_nothing:
  "processSubscriptionPayment L u subscriptionId amount solAmount kind now day = (res, L') \<Longrightarrow>
     (\<forall>e. res = Inl e \<longrightarrow> L' = L) \<and>
     (0 < amount \<and> 0 \<le> solAmount \<and> subscriptions L (u, subscriptionId) = None
        \<longrightarrow> (\<exists>p. res = Inr p)) \<and>
     (\<forall>p. res = Inr p \<longrightarrow>
        payments L' = payments L @ [p] \<and> payStatus p = Completed \<and>
        payUser p = u \<and> paySubscriptionId p = subscriptionId \<and>
        payAmount p = amount \<and> paySolAmount p = solAmount \<and>
        subscriptions L (u, subscriptionId) = None \<and>
        (\<exists>s. subscriptions L' = (subscriptions L)((u, subscriptionId) \<mapsto> s) \<and>
             subStatus s = Active \<and> subAmount s = amount) \<and>
        balances L' = (balances L)(u := balances L u + nat (computeCashback amount)) \<and>
        int (balances L' u) = int (balances L u) + computeCashback amount \<and>
        redemptions L' = redemptions L \<and>
        totalPayments (global L') = totalPayments (global L) + 1 \<and>
        totalSubscriptions (global L') = totalSubscriptions (global L) + 1 \<and>
        totalCashbackMinted (global L') =
          totalCashbackMinted (global L) + computeCashback amount \<and>
        authority (global L') = authority (global L))"
  by (auto simp: processSubscriptionPayment_def activate_def accrue_def Let_def
      computeCashback_div split: if_splits option.splits sum.splits)

theorem processSubscriptionPayment_all_or_nothing_witness:
  "processSubscriptionPayment emptyLedger ''alice'' 1 59940 100000000 ''year'' 1700000000 86400
     = (Inr examplePayment, paidLedger) \<and>
   (0::int) < 59940 \<and> (0::int) \<le> 100000000 \<and> subscriptions emptyLedger (''alice'', 1) = None \<and>
   payments paidLedger = payments emptyLedger @ [examplePayment] \<and>
   payStatus examplePayment = Completed \<and>
   int (balances paidLedger ''alice'') = int (balances emptyLedger ''alice'') + computeCashback 59940 \<and>
   totalPayments (global paidLedger) = totalPayments (global emptyLedger) + 1 \<and>
   totalSubscriptions (global paidLedger) = totalSubscriptions (global emptyLedger) + 1 \<and>
   totalCashbackMinted (global paidLedger)
     = totalCashbackMinted (global emptyLedger) + computeCashback 59940 \<and>
   processSubscriptionPayment paidLedger ''alice'' 1 59940 100000000 ''year'' 1700000500 86400
     = (Inl AlreadyExists, paidLedger)"
proof -
  have pre: "(0::int) < 59940 \<and> (0::int) \<le> 100000000 \<and>
             subscriptions emptyLedger (''alice'', 1) = None"
    by (simp add: emptyLedger_def)
  from processSubscriptionPayment_all_or_nothing [OF payment_example]
  have post: "payments paidLedger = payments emptyLedger @ [examplePayment] \<and>
      payStatus examplePayment = Completed \<and>
      int (balances paidLedger ''alice'')
        = int (balances emptyLedger ''alice'') + computeCashback 59940 \<and>
      totalPayments (global paidLedger) = totalPayments (global emptyLedger) + 1 \<and>
      totalSubscriptions (global paidLedger) = totalSubscriptions (global emptyLedger) + 1 \<and>
      totalCashbackMinted (global paidLedger)
        = totalCashbackMinted (global emptyLedger) + computeCashback 59940"
    by (elim conjE allE [of _ examplePayment]) (drule mp, rule refl, elim conjE, intro conjI)
  from payment_example pre post duplicate_payment_example
  show ?thesis by (elim conjE, intro conjI)
qed

text \<open>
  Claim C2. \<^verbatim>\<open>computeCashback\<close> is a function of the amount alone: it is the
  integer \<^verbatim>\<open>floor(amount * 0.10)\<close>, which is the amount times ten divided by a hundred
  in integer arithmetic, and \<^verbatim>\<open>computeCashback(59940) = 5994\<close>.
\<close>

theorem computeCashback_floor:
  "computeCashback amount = \<lfloor>real_of_int amount * 0.10\<rfloor> \<and>
   computeCashback amount = amount * 10 div 100 \<and>
   computeCashback 59940 = 5994"
  using computeCashback_div [of amount] computeCashback_div [of 59940]
  by (simp add: computeCashback_def)

text \<open>
  Claim C7. \<^verbatim>\<open>redeem\<close> fails with InsufficientBalance when the amount exceeds the balance
  of the user and with InvalidAmount when the amount is not positive, and the ledger,
  the balance with it, is then unchanged. Otherwise it returns the balance less the
  amount, decreases the balance and \<^verbatim>\<open>totalCashbackMinted\<close> by the amount, records one
  CashbackRedemption, and changes nothing else.
\<close>

theorem redeem_checks_balance:
  "redeem L u amount now = (res, L') \<Longrightarrow>
     (int (balances L u) < amount \<longrightarrow> res = Inl InsufficientBalance \<and> L' = L) \<and>
     (amount \<le> 0 \<longrightarrow> res = Inl InvalidAmount \<and> L' = L) \<and>
     (0 < amount \<and> amount \<le> int (balances L u) \<longrightarrow>
        res = Inr (balances L u - nat amount) \<and>
        int (balances L' u) = int (balances L u) - amount \<and>
        (\<forall>v. v \<noteq> u \<longrightarrow> balances L' v = balances L v) \<and>
        redemptions L' = redemptions L @
          [\<lparr>redUser = u, redAmount = amount, redTimestamp = now\<rparr>] \<and>
        totalCashbackMinted (global L') = totalCashbackMinted (global L) - amount \<and>
        totalPayments (global L') = totalPayments (global L) \<and>
        totalSubscriptions (global L') = totalSubscriptions (global L) \<and>
        payments L' = payments L \<and> subscriptions L' = subscriptions L)"
  by (auto simp: redeem_def split: if_splits)

theorem redeem_checks_balance_witness:
  "(0::int) < 1000 \<and> (1000::int) \<le> int (balances paidLedger ''alice'') \<and>
   fst (redeem paidLedger ''alice'' 1000 1700000900) = Inr 4994 \<and>
   int (balances (snd (redeem paidLedger ''alice'' 1000 1700000900)) ''alice'') = 4994 \<and>
   totalCashbackMinted (global (snd (redeem paidLedger ''alice'' 1000 1700000900))) = 4994 \<and>
   redemptions (snd (redeem paidLedger ''alice'' 1000 1700000900))
     = [\<lparr>redUser = ''alice'', redAmount = 1000, redTimestamp = 1700000900\<rparr>] \<and>
   int (balances paidLedger ''alice'') < 6000 \<and>
   redeem paidLedger ''alice'' 6000 1700000900 = (Inl InsufficientBalance, paidLedger) \<and>
   (0::int) \<le> 0 \<and>
   redeem paidLedger ''alice'' 0 1700000900 = (Inl InvalidAmount, paidLedger)"
proof -
  have ok: "(0::int) < 1000 \<and> (1000::int) \<le> int (balances paidLedger ''alice'')"
    by (simp add: paidLedger_values)
  have less: "int (balances paidLedger ''alice'') < 6000"
    by (simp add: paidLedger_values)
  from redeem_checks_balance
    [of paidLedger "''alice''" 1000 1700000900
      "fst (redeem paidLedger ''alice'' 1000 1700000900)"
      "snd (redeem paidLedger ''alice'' 1000 1700000900)"] ok
  have r1: "fst (redeem paidLedger ''alice'' 1000 1700000900) = Inr 4994 \<and>
      int (balances (snd (redeem paidLedger ''alice'' 1000 1700000900)) ''alice'') = 4994 \<and>
      totalCashbackMinted (global (snd (redeem paidLedger ''alice'' 1000 1700000900))) = 4994 \<and>
      redemptions (snd (redeem paidLedger ''alice'' 1000 1700000900))
        = [\<lparr>redUser = ''alice'', redAmount = 1000, redTimestamp = 1700000900\<rparr>]"
    by (simp add: paidLedger_values)
  from redeem_checks_balance
    [of paidLedger "''alice''" 6000 1700000900
      "fst (redeem paidLedger ''alice'' 6000 1700000900)"
      "snd (redeem paidLedger ''alice'' 6000 1700000900)"] less
  have r2: "redeem paidLedger ''alice'' 6000 1700000900 = (Inl InsufficientBalance, paidLedger)"
    by (simp add: prod_eq_iff)
  from redeem_checks_balance
    [of paidLedger "''alice''" 0 1700000900
      "fst (redeem paidLedger ''alice'' 0 1700000900)"
      "snd (redeem paidLedger ''alice'' 0 1700000900)"]
  have r3: "redeem paidLedger ''alice'' 0 1700000900 = (Inl InvalidAmount, paidLedger)"
    by (simp add: prod_eq_iff)
  from ok r1 less r2 r3 show ?thesis by simp
qed

end
